theory Spec2Isabelle
  imports Main "HOL-Library.Multiset"
begin

section \<open>Python strings\<close>

text \<open>
  A Python \<open>str\<close> is modelled as a \<open>string\<close>, one \<open>char\<close> for one character of the
  text, so that \<open>length\<close> is Python's \<open>len\<close>. Only the characters with code points
  below 256 are representable.
\<close>

text \<open>\<open>str.isspace\<close> on one character, for the code points below 256.\<close>

definition isspace :: "char \<Rightarrow> bool" where
  "isspace c = (c \<in> set [CHR 0x09, CHR 0x0A, CHR 0x0B, CHR 0x0C, CHR 0x0D,
                          CHR 0x1C, CHR 0x1D, CHR 0x1E, CHR 0x1F, CHR 0x20,
                          CHR 0x85, CHR 0xA0])"

text \<open>\<open>s.strip()\<close>: whitespace removed at both ends.\<close>

definition strip :: "string \<Rightarrow> string" where
  "strip s = rev (dropWhile isspace (rev (dropWhile isspace s)))"

text \<open>\<open>s.startswith(p)\<close>.\<close>

fun startswith :: "string \<Rightarrow> string \<Rightarrow> bool" where
  "startswith s [] = True"
| "startswith [] (p # ps) = False"
| "startswith (c # cs) (p # ps) = (c = p \<and> startswith cs ps)"

text \<open>\<open>sub in s\<close>.\<close>

fun str_in :: "string \<Rightarrow> string \<Rightarrow> bool" where
  "str_in sub [] = (sub = [])"
| "str_in sub (c # cs) = (startswith (c # cs) sub \<or> str_in sub cs)"

text \<open>\<open>s.split(sep)\<close> for a separator of one character; the result is never empty.\<close>

fun split :: "char \<Rightarrow> string \<Rightarrow> string list" where
  "split sep [] = [] # []"
| "split sep (c # cs) =
     (if c = sep then [] # split sep cs
      else (case split sep cs of
              [] \<Rightarrow> [c] # []
            | l # ls \<Rightarrow> (c # l) # ls))"

text \<open>\<open>sep.join(xs)\<close>.\<close>

fun join :: "string \<Rightarrow> string list \<Rightarrow> string" where
  "join sep [] = []"
| "join sep [x] = x"
| "join sep (x # y # ys) = x @ sep @ join sep (y # ys)"

text \<open>\<open>s.count(sub)\<close> for a non-empty \<open>sub\<close>: the occurrences that do not overlap,
  found from the left.\<close>

fun count_sub :: "string \<Rightarrow> string \<Rightarrow> nat" where
  "count_sub sub [] = 0"
| "count_sub sub (c # cs) =
     (if startswith (c # cs) sub
      then Suc (count_sub sub (drop (length sub - 1) cs))
      else count_sub sub cs)"

text \<open>\<open>str(n)\<close> for a natural number.\<close>

fun str_nat :: "nat \<Rightarrow> string" where
  "str_nat n =
     (if n < 10 then [char_of (48 + n)]
      else str_nat (n div 10) @ [char_of (48 + n mod 10)])"

declare str_nat.simps [simp del]

section \<open>The retrieval chain (src/rag\_chain.py)\<close>

text \<open>
  A retrieved document: its text and its metadata dictionary. \<open>dict.get(k, d)\<close> is
  \<open>get\<close>.
\<close>

record document =
  page_content :: string
  metadata :: "string \<rightharpoonup> string"

definition get :: "(string \<rightharpoonup> string) \<Rightarrow> string \<Rightarrow> string \<Rightarrow> string" where
  "get m k d = (case m k of None \<Rightarrow> d | Some v \<Rightarrow> v)"

subsection \<open>\<open>format_docs\<close>\<close>

datatype verdict = Keep | Discard

text \<open>
  The three guards at the head of the loop body of \<open>format_docs\<close>, each of which ends the
  iteration with \<open>continue\<close>.
\<close>

definition quality_filter :: "string \<Rightarrow> verdict" where
  "quality_filter content =
     (if str_in ''Redirecting'' content then Discard
      else if length (strip content) < 100 then Discard
      else if str_in ''Skip to main content'' content \<and> length content < 200 then Discard
      else Keep)"

text \<open>The inner loop over the lines: each line is stripped, navigation lines are skipped.\<close>

fun clean_lines_loop :: "string list \<Rightarrow> string list \<Rightarrow> string list" where
  "clean_lines_loop [] clean_lines = clean_lines"
| "clean_lines_loop (line # lines) clean_lines =
     (let line = strip line in
      if line \<in> set ['''', ''Docs'', ''Search'', ''Home'', ''API Reference'', ''Tutorials'']
      then clean_lines_loop lines clean_lines
      else clean_lines_loop lines (clean_lines @ [line]))"

definition clean_content :: "string \<Rightarrow> string" where
  "clean_content content = join '' '' (clean_lines_loop (split CHR 0x0A content) [])"

text \<open>
  The entry appended to \<open>formatted\<close>; \<open>n\<close> is \<open>len(formatted) + 1\<close>. \<open>str.upper\<close> maps
  some characters below 256 to characters above, so it is a parameter \<open>upper\<close> of the
  model.
\<close>

definition entry :: "(string \<Rightarrow> string) \<Rightarrow> nat \<Rightarrow> document \<Rightarrow> string" where
  "entry upper n doc =
     ''[Document '' @ str_nat n @ '' - ''
       @ upper (get (metadata doc) ''source_framework'' ''unknown'') @ '']''
       @ [CHR 0x0A] @ clean_content (page_content doc) @ [CHR 0x0A]"

text \<open>The loop over the documents, with the list \<open>formatted\<close> as accumulator.\<close>

fun format_docs_loop ::
  "(string \<Rightarrow> string) \<Rightarrow> document list \<Rightarrow> string list \<Rightarrow> string list" where
  "format_docs_loop upper [] formatted = formatted"
| "format_docs_loop upper (doc # docs) formatted =
     (if quality_filter (page_content doc) = Discard
      then format_docs_loop upper docs formatted
      else
        let formatted' =
              (if length (clean_content (page_content doc)) > 50
               then formatted @ [entry upper (length formatted + 1) doc]
               else formatted)
        in if length formatted' \<ge> 5 then formatted'
           else format_docs_loop upper docs formatted')"

definition format_docs :: "(string \<Rightarrow> string) \<Rightarrow> document list \<Rightarrow> string" where
  "format_docs upper docs =
     (let formatted = format_docs_loop upper docs [] in
      if formatted \<noteq> [] then join ([CHR 0x0A] @ ''---'' @ [CHR 0x0A]) formatted
      else ''No relevant documentation found in the knowledge base.'')"

subsection \<open>\<open>format_chat_history\<close> and the history passed by the chat page\<close>

fun format_chat_history_loop :: "(string \<times> string) list \<Rightarrow> string list \<Rightarrow> string list" where
  "format_chat_history_loop [] formatted = formatted"
| "format_chat_history_loop ((human, ai) # history) formatted =
     format_chat_history_loop history
       (formatted @ [''User: '' @ human] @ [''Assistant: '' @ ai])"

definition format_chat_history :: "(string \<times> string) list \<Rightarrow> string" where
  "format_chat_history history =
     (if history = [] then ''No previous conversation.''
      else join [CHR 0x0A] (format_chat_history_loop history []))"

text \<open>The slice \<open>xs[-3:]\<close>: it starts at \<open>len(xs) - 3\<close>, or at 0 when that is negative.\<close>

definition slice_last3 :: "'a list \<Rightarrow> 'a list" where
  "slice_last3 xs =
     (let start = int (length xs) - 3;
          start = (if start < 0 then 0 else start)
      in drop (nat start) xs)"

text \<open>
  What the chain receives and formats for a question: the chat page passes
  \<open>history[-3:]\<close> as \<open>chat_history\<close>, and the chain applies \<open>format_chat_history\<close> to it.
\<close>

definition history_window :: "(string \<times> string) list \<Rightarrow> string" where
  "history_window history = format_chat_history (slice_last3 history)"


subsection \<open>The prompt template\<close>

text \<open>The lines of the triple-quoted literal \<open>RAG_PROMPT_TEMPLATE\<close>, joined by newlines.\<close>

definition RAG_PROMPT_TEMPLATE :: string where
  \<open>RAG_PROMPT_TEMPLATE = join [CHR 0x0A]
     [''You are an expert assistant specialized in LangChain, LangGraph, and LangSmith frameworks.'',
      '''',
      ''Your job is to help developers understand and use these frameworks effectively.'',
      '''',
      ''INSTRUCTIONS:'',
      ''1. First, try to answer based on the provided context from documentation'',
      ''2. If the context is relevant, use it to provide a detailed answer with code examples'',
      ''3. If the context doesn't directly answer the question but is related, use your knowledge of LangChain/LangGraph/LangSmith to help'',
      ''4. Include code examples when relevant'',
      ''5. Mention which framework (LangChain, LangGraph, or LangSmith) the answer relates to'',
      '''',
      ''CONTEXT FROM DOCUMENTATION:'',
      ''{context}'',
      '''',
      '''',
      ''CHAT HISTORY (Previous context - IGNORE if unrelated to new question):'',
      ''{chat_history}'',
      '''',
      ''LATEST USER QUESTION (Focus your answer here):'',
      ''{question}'',
      '''',
      ''    Provide a comprehensive, beginner-friendly explanation.'',
      ''    - Break down complex concepts into simple terms.'',
      ''    - Uses analogies if helpful.'',
      ''    - Provide a detailed answer that teaches    - The user wants a detailed, comprehensive answer.'',
      ''    - If the "Context" is just a code snippet (like a specific function), you MUST first define the general concept using your own knowledge, then explain how the code relates to it.'',
      ''    - If the answer is completely missing from the context and you cannot infer it, say "I don't have information about that in my specific documentation, but generally speaking..." and provide a helpful answer based on your training.'',
      ''    - Do NOT hallucinate specific library features that don't exist. Use your general knowledge only if you are 100% sure.'']\<close>

text \<open>
  \<open>ChatPromptTemplate.from_template\<close> reads the template as a format string: text, and
  fields \<open>{name}\<close>. The model covers the templates without doubled braces and without
  conversions or format specifications, as this one is; an unclosed field or a closing
  brace outside a field is an error of the formatter (\<open>None\<close>). The scan keeps the
  text read so far in \<open>lit\<close>, and the name of the field it is inside, if any.
\<close>

datatype piece = Lit string | Field string

fun parse_template :: "string \<Rightarrow> string \<Rightarrow> string option \<Rightarrow> piece list option" where
  "parse_template [] lit None = Some [Lit lit]"
| "parse_template [] lit (Some name) = None"
| "parse_template (c # cs) lit None =
     (if c = CHR ''{'' then
        (case parse_template cs [] (Some []) of
           None \<Rightarrow> None
         | Some ps \<Rightarrow> Some (Lit lit # ps))
      else if c = CHR ''}'' then None
      else parse_template cs (lit @ [c]) None)"
| "parse_template (c # cs) lit (Some name) =
     (if c = CHR ''}'' then
        (case parse_template cs [] None of
           None \<Rightarrow> None
         | Some ps \<Rightarrow> Some (Field name # ps))
      else if c = CHR ''{'' then None
      else parse_template cs lit (Some (name @ [c])))"

text \<open>Formatting: every field is replaced by the value of its name; a name without a
  value is a \<open>KeyError\<close> (\<open>None\<close>).\<close>

fun fill :: "(string \<rightharpoonup> string) \<Rightarrow> piece list \<Rightarrow> string option" where
  "fill kwargs [] = Some []"
| "fill kwargs (Lit s # ps) =
     (case fill kwargs ps of None \<Rightarrow> None | Some r \<Rightarrow> Some (s @ r))"
| "fill kwargs (Field name # ps) =
     (case kwargs name of
        None \<Rightarrow> None
      | Some v \<Rightarrow> (case fill kwargs ps of None \<Rightarrow> None | Some r \<Rightarrow> Some (v @ r)))"

definition format_template :: "string \<Rightarrow> (string \<rightharpoonup> string) \<Rightarrow> string option" where
  "format_template template kwargs =
     (case parse_template template [] None of
        None \<Rightarrow> None
      | Some ps \<Rightarrow> fill kwargs ps)"

text \<open>
  The head of the chain of \<open>create_rag_chain\<close>: the dictionary of the three values,
  piped into the prompt. \<open>assemble\<close> is the prompt for given values; \<open>rag_prompt\<close>
  computes the values as the chain does, from the documents the retriever returns for
  the question.
\<close>

definition assemble :: "string \<Rightarrow> string \<Rightarrow> string \<Rightarrow> string option" where
  "assemble context chat_history question =
     format_template RAG_PROMPT_TEMPLATE
       [''context'' \<mapsto> context, ''chat_history'' \<mapsto> chat_history, ''question'' \<mapsto> question]"

definition rag_prompt ::
  "(string \<Rightarrow> string) \<Rightarrow> (string \<Rightarrow> document list) \<Rightarrow> string \<Rightarrow> (string \<times> string) list
     \<Rightarrow> string option" where
  "rag_prompt upper retriever question chat_history =
     assemble (format_docs upper (retriever question))
              (format_chat_history chat_history)
              question"

section \<open>The conversation store (src/database.py)\<close>

text \<open>
  The tables \<open>conversations\<close> and \<open>chat_messages\<close>. A conversation row is stored under
  its primary key \<open>id\<close>; the message rows are kept in the order of their insertion, with
  their key in \<open>msg_id\<close>. The table \<open>users\<close> is not modelled, and the texts are taken
  to be free of the character NUL, which the driver refuses.
\<close>

type_synonym time = nat

record conversation =
  user_id :: nat
  title :: string
  created_at :: time
  updated_at :: time

record chat_message =
  msg_id :: nat
  conversation_id :: nat
  role :: string
  content :: string
  msg_created_at :: time

record database =
  conversations :: "nat \<rightharpoonup> conversation"
  chat_messages :: "chat_message list"

text \<open>
  What a call that inserts a row takes from outside the tables: the value that the
  sequence of the autoincrement key gives for the new row, and two readings of the
  clock (\<open>datetime.utcnow()\<close>), in the order in which the call reads it. The
  sequences are not part of \<open>database\<close>: an \<open>INSERT\<close> that fails may have taken a value
  of its sequence, and the rollback does not give it back.
\<close>

record outside =
  seq_value :: nat
  utcnow1 :: time
  utcnow2 :: time

text \<open>
  The exceptions a call re-raises after \<open>session.rollback()\<close>. \<open>DataError\<close>: a text
  does not fit its column. \<open>IntegrityError\<close>: the key of the new row is in the table
  already, or the row refers to a conversation that does not exist (the foreign key of
  \<open>chat_messages.conversation_id\<close>, which is also not null).
\<close>

datatype db_error = DataError | IntegrityError

text \<open>
  A column \<open>String(n)\<close> takes a text of more than \<open>n\<close> characters only if the
  characters after the first \<open>n\<close> are all spaces, and stores its first \<open>n\<close> characters,
  \<open>take n\<close> of the text.
\<close>

definition fits :: "nat \<Rightarrow> string \<Rightarrow> bool" where
  "fits n s = list_all (\<lambda>c. c = CHR '' '') (drop n s)"

text \<open>
  \<open>create_conversation\<close> returns the id of the new conversation, or the error, and the
  database after the call; after an error that is the database before the call (the
  rollback). The two times of the row are the defaults of their columns.
\<close>

definition create_conversation ::
  "outside \<Rightarrow> nat \<Rightarrow> string \<Rightarrow> database \<Rightarrow> (db_error + nat) \<times> database" where
  "create_conversation out uid ttl db =
     (let conv = \<lparr>user_id = uid, title = take 100 ttl,
                  created_at = utcnow1 out, updated_at = utcnow2 out\<rparr>
      in if \<not> fits 100 ttl then (Inl DataError, db)
         else if conversations db (seq_value out) \<noteq> None then (Inl IntegrityError, db)
         else (Inr (seq_value out),
               db\<lparr>conversations := (conversations db)(seq_value out \<mapsto> conv)\<rparr>))"

text \<open>
  \<open>add_message\<close> returns the id of the new message, or the error, and the database
  after the call. The row is inserted when the session is flushed for the query of the
  conversation, with the first reading of the clock as the default of \<open>created_at\<close>;
  this is where a role that does not fit \<open>String(10)\<close>, a key that is taken or a
  conversation that does not exist raises (for the last, \<open>conv\<close> is \<open>None\<close>, on which
  \<open>conv.updated_at = ...\<close> would raise as well). The second reading of the clock is
  the one assigned to \<open>updated_at\<close>.
\<close>

definition add_message ::
  "outside \<Rightarrow> nat \<Rightarrow> string \<Rightarrow> string \<Rightarrow> database \<Rightarrow> (db_error + nat) \<times> database" where
  "add_message out cid rl cnt db =
     (let msg = \<lparr>msg_id = seq_value out, conversation_id = cid, role = take 10 rl,
                 content = cnt, msg_created_at = utcnow1 out\<rparr>
      in if \<not> fits 10 rl then (Inl DataError, db)
         else if seq_value out \<in> set (map msg_id (chat_messages db))
         then (Inl IntegrityError, db)
         else
           let conv = conversations db cid;
               conv = (case conv of
                         None \<Rightarrow> None
                       | Some c \<Rightarrow>
                           if title c = ''New Chat'' \<and> rl = ''user''
                           then Some (c\<lparr>title := (if length cnt > 50
                                                    then take 50 cnt @ ''...''
                                                    else cnt)\<rparr>)
                           else Some c)
           in case conv of
                None \<Rightarrow> (Inl IntegrityError, db)
              | Some c \<Rightarrow>
                  (Inr (seq_value out),
                   db\<lparr>conversations := (conversations db)(cid \<mapsto> c\<lparr>updated_at := utcnow2 out\<rparr>),
                      chat_messages := chat_messages db @ [msg]\<rparr>))"

definition delete_conversation :: "nat \<Rightarrow> database \<Rightarrow> bool \<times> database" where
  "delete_conversation cid db =
     (True,
      db\<lparr>chat_messages := filter (\<lambda>m. conversation_id m \<noteq> cid) (chat_messages db),
         conversations := (conversations db)(cid := None)\<rparr>)"

section \<open>The chat page (app.py)\<close>

text \<open>
  What the generator returned by \<open>rag_chain.stream\<close> does when it is iterated: it
  yields a chunk and goes on, it ends, or the model call raises an exception, of which
  the model keeps the text \<open>str(e)\<close>.
\<close>

datatype chunk_stream =
  StreamEnd
| StreamChunk string chunk_stream
| StreamRaise string

text \<open>
  The generator \<open>stream_response\<close>: the list of what it yields, and the value of
  \<open>st.session_state.temp_response\<close> after it (\<open>None\<close> while the attribute is not
  set). \<open>stream_loop\<close> is the \<open>for\<close> loop inside the \<open>try\<close>, with \<open>full_response\<close>
  and \<open>temp_response\<close> as state.
\<close>

fun stream_loop :: "chunk_stream \<Rightarrow> string \<Rightarrow> string option \<Rightarrow> string list \<times> string option" where
  "stream_loop StreamEnd full_response temp_response = ([], Some full_response)"
| "stream_loop (StreamChunk chunk stream) full_response temp_response =
     (let (yielded, temp_response') = stream_loop stream (full_response @ chunk) temp_response
      in (chunk # yielded, temp_response'))"
| "stream_loop (StreamRaise e) full_response temp_response =
     ([''Error: '' @ e], temp_response)"

definition stream_response :: "chunk_stream \<Rightarrow> string option \<Rightarrow> string list \<times> string option" where
  "stream_response stream temp_response = stream_loop stream [] temp_response"

text \<open>\<open>st.write_stream\<close> shows the strings it is given and returns them concatenated.\<close>

definition write_stream :: "string list \<Rightarrow> string" where
  "write_stream yielded = concat yielded"

record session_message =
  sm_role :: string
  sm_content :: string
  sm_timestamp :: time

record session_state =
  session_user_id :: nat
  current_conversation_id :: "nat option"
  messages :: "session_message list"
  temp_response :: "string option"

text \<open>
  The history the chat page computes: every message but the last that has the role
  \<open>user\<close>, paired with the message after it.
\<close>

fun history_pairs :: "session_message list \<Rightarrow> (string \<times> string) list" where
  "history_pairs (m # m' # ms) =
     (if sm_role m = ''user'' then (sm_content m, sm_content m') # history_pairs (m' # ms)
      else history_pairs (m' # ms))"
| "history_pairs ms = []"
text \<open>
  \<open>not st.session_state.current_conversation_id\<close>: the id is \<open>None\<close> or zero.
\<close>

definition no_conversation :: "nat option \<Rightarrow> bool" where
  "no_conversation cur = (case cur of None \<Rightarrow> True | Some cid \<Rightarrow> cid = 0)"

text \<open>
  The call \<open>add_message(st.session_state.current_conversation_id, role, content)\<close> of
  the handler: the id of the session is passed as it is; with \<open>None\<close> for the id the
  insert is refused.
\<close>

definition add_session_message ::
  "outside \<Rightarrow> string \<Rightarrow> string \<Rightarrow> session_state \<times> database
     \<Rightarrow> (db_error + nat) \<times> session_state \<times> database" where
  "add_session_message out rl cnt st =
     (let (ss, db) = st in
      case current_conversation_id ss of
        None \<Rightarrow> (Inl IntegrityError, ss, db)
      | Some cid \<Rightarrow> (let (r, db') = add_message out cid rl cnt db in (r, ss, db')))"

text \<open>
  Step 1 of the handler of \<open>st.chat_input\<close>: the prompt is appended to the messages of
  the session with the time \<open>datetime.now()\<close>, a conversation is created if none is
  current, and the user message is stored. \<open>conv_out\<close> and \<open>msg_out\<close> are what the two
  calls of the store take from outside. An exception of \<open>create_conversation\<close> ends
  the handler.
\<close>

definition add_user_message ::
  "time \<Rightarrow> outside \<Rightarrow> outside \<Rightarrow> string \<Rightarrow> session_state \<times> database
     \<Rightarrow> (db_error + nat) \<times> session_state \<times> database" where
  "add_user_message now conv_out msg_out prompt st =
     (let (ss, db) = st;
          ss = ss\<lparr>messages := messages ss
                  @ [\<lparr>sm_role = ''user'', sm_content = prompt, sm_timestamp = now\<rparr>]\<rparr>
      in if no_conversation (current_conversation_id ss)
         then (case create_conversation conv_out (session_user_id ss) ''New Chat'' db of
                 (Inl e, db') \<Rightarrow> (Inl e, ss, db')
               | (Inr cid, db') \<Rightarrow>
                   add_session_message msg_out ''user'' prompt
                     (ss\<lparr>current_conversation_id := Some cid\<rparr>, db'))
         else add_session_message msg_out ''user'' prompt (ss, db))"

text \<open>
  The whole handler. \<open>chain_stream\<close> stands for \<open>rag_chain.stream\<close>: what the chain
  does for a question and a chat history. \<open>reply_out\<close> is what the call that stores
  the answer takes from outside. An exception of \<open>add_message\<close> ends the handler.
\<close>

definition on_chat_input ::
  "(string \<Rightarrow> (string \<times> string) list \<Rightarrow> chunk_stream) \<Rightarrow> time \<Rightarrow> outside \<Rightarrow> outside
     \<Rightarrow> time \<Rightarrow> outside \<Rightarrow> string
     \<Rightarrow> session_state \<times> database \<Rightarrow> (db_error + nat) \<times> session_state \<times> database" where
  "on_chat_input chain_stream t_user conv_out msg_out t_reply reply_out prompt st =
     (case add_user_message t_user conv_out msg_out prompt st of
        (Inl e, ss, db) \<Rightarrow> (Inl e, ss, db)
      | (Inr _, ss, db) \<Rightarrow>
          (let history = history_pairs (messages ss);
               (yielded, temp) =
                  stream_response (chain_stream prompt (slice_last3 history)) (temp_response ss);
               response = write_stream yielded;
               ss = ss\<lparr>temp_response := temp,
                       messages := messages ss
                         @ [\<lparr>sm_role = ''assistant'', sm_content = response,
                              sm_timestamp = t_reply\<rparr>]\<rparr>
           in add_session_message reply_out ''assistant'' response (ss, db)))"

section \<open>The document loader (src/doc\_loader.py)\<close>

text \<open>
  \<open>load_documents_from_urls\<close> builds a list of references to \<open>Document\<close> objects. The
  objects live in a heap, a list in which an object has its index as address; the list
  \<open>all_docs\<close> holds addresses. \<open>loader\<close> stands for \<open>WebBaseLoader(url).load()\<close>: the
  new documents of a URL, or the exception.
\<close>

datatype load_error = LoadError string

type_synonym heap = "document list"

text \<open>The body of the loop \<open>for doc in docs\<close>: the two metadata entries are set.\<close>

definition add_source_metadata :: "string \<Rightarrow> string \<Rightarrow> document \<Rightarrow> document" where
  "add_source_metadata source_name url doc =
     doc\<lparr>metadata := (metadata doc)(''source_framework'' \<mapsto> source_name,
                                      ''source_url'' \<mapsto> url)\<rparr>"

fun load_documents_from_urls_loop ::
  "(string \<Rightarrow> load_error + document list) \<Rightarrow> string list \<Rightarrow> string
     \<Rightarrow> heap \<times> nat list \<Rightarrow> heap \<times> nat list" where
  "load_documents_from_urls_loop loader [] source_name (heap, all_docs) = (heap, all_docs)"
| "load_documents_from_urls_loop loader (url # urls) source_name (heap, all_docs) =
     (case loader url of
        Inl e \<Rightarrow> load_documents_from_urls_loop loader urls source_name (heap, all_docs)
      | Inr loaded \<Rightarrow>
          (let docs = [length heap ..< length heap + length loaded];
               heap = heap @ map (add_source_metadata source_name url) loaded;
               all_docs = all_docs @ docs;
               all_docs = all_docs @ docs
           in load_documents_from_urls_loop loader urls source_name (heap, all_docs)))"

definition load_documents_from_urls ::
  "(string \<Rightarrow> load_error + document list) \<Rightarrow> string list \<Rightarrow> string \<Rightarrow> heap \<Rightarrow> heap \<times> nat list" where
  "load_documents_from_urls loader urls source_name heap =
     load_documents_from_urls_loop loader urls source_name (heap, [])"

text \<open>
  \<open>text_splitter.split_documents\<close>: the chunks of each document in turn, each chunk a
  new document with the metadata of the one it comes from. \<open>split_text\<close> stands for the
  splitting of one text by the \<open>RecursiveCharacterTextSplitter\<close>.
\<close>

definition chunks_of :: "(string \<Rightarrow> string list) \<Rightarrow> document \<Rightarrow> document list" where
  "chunks_of split_text doc =
     map (\<lambda>chunk. \<lparr>page_content = chunk, metadata = metadata doc\<rparr>)
         (split_text (page_content doc))"

definition text_splitter_split_documents ::
  "(string \<Rightarrow> string list) \<Rightarrow> document list \<Rightarrow> document list" where
  "text_splitter_split_documents split_text documents =
     concat (map (chunks_of split_text) documents)"

text \<open>\<open>split_documents\<close> calls the splitter twice and returns the second result.\<close>

definition split_documents :: "(string \<Rightarrow> string list) \<Rightarrow> document list \<Rightarrow> document list" where
  "split_documents split_text documents =
     (let chunks = text_splitter_split_documents split_text documents;
          chunks = text_splitter_split_documents split_text documents
      in chunks)"

section \<open>Definitions used to state the properties\<close>

text \<open>The two lines of one turn of a conversation.\<close>

definition turn_lines :: "string \<times> string \<Rightarrow> string list" where
  "turn_lines turn = [''User: '' @ fst turn, ''Assistant: '' @ snd turn]"

text \<open>The last \<open>n\<close> elements of a list, in their order.\<close>

definition last_turns :: "nat \<Rightarrow> 'a list \<Rightarrow> 'a list" where
  "last_turns n history = rev (take n (rev history))"

text \<open>A document that passes the three guards and whose cleaned text is longer than 50
  characters.\<close>

definition included :: "document \<Rightarrow> bool" where
  "included doc =
     (quality_filter (page_content doc) = Keep \<and> 50 < length (clean_content (page_content doc)))"

text \<open>The entries of a list of documents, numbered from \<open>n\<close>.\<close>

fun entries_from :: "(string \<Rightarrow> string) \<Rightarrow> nat \<Rightarrow> document list \<Rightarrow> string list" where
  "entries_from upper n [] = []"
| "entries_from upper n (doc # docs) = entry upper n doc # entries_from upper (Suc n) docs"

text \<open>\<open>str.upper\<close> on ASCII text, for the examples.\<close>

definition ascii_upper :: "string \<Rightarrow> string" where
  "ascii_upper s =
     map (\<lambda>c. if (97::nat) \<le> of_char c \<and> of_char c \<le> (122::nat)
             then char_of (of_char c - (32::nat)) else c) s"

text \<open>A page of 120 characters whose cleaned text has exactly 50 characters.\<close>

definition fifty_doc :: document where
  "fifty_doc = \<lparr>page_content = ''aaaaaaaaaaaaaaaaaaaaaaaaaaaaaaaaaaaaaaaaaaaaaaaaaa\<newline>API Reference\<newline>API Reference\<newline>API Reference\<newline>API Reference\<newline>API Reference'', metadata = [''source_framework'' \<mapsto> ''langchain'']\<rparr>"

text \<open>The database after \<open>init_database\<close> has created the tables: no rows.\<close>

definition init_database :: database where
  "init_database = \<lparr>conversations = Map.empty, chat_messages = []\<rparr>"

text \<open>The database with one conversation, the new conversation 1 of user 1.\<close>

definition one_conversation :: database where
  "one_conversation =
     snd (create_conversation \<lparr>seq_value = 1, utcnow1 = 1, utcnow2 = 1\<rparr> 1 ''New Chat''
            init_database)"

text \<open>The stream that yields the given chunks and then goes on as \<open>stream\<close>.\<close>

fun chunks_then :: "string list \<Rightarrow> chunk_stream \<Rightarrow> chunk_stream" where
  "chunks_then [] stream = stream"
| "chunks_then (chunk # chunks) stream = StreamChunk chunk (chunks_then chunks stream)"

text \<open>A session of user 2 whose current conversation has the id 1.\<close>

definition guest_session :: session_state where
  "guest_session =
     \<lparr>session_user_id = 2, current_conversation_id = Some 1, messages = [],
      temp_response = None\<rparr>"

text \<open>The documents a call of \<open>load_documents_from_urls\<close> loads from one URL: none
  when the loader raises.\<close>

definition successfully_loaded ::
  "(string \<Rightarrow> load_error + document list) \<Rightarrow> string \<Rightarrow> string \<Rightarrow> document list" where
  "successfully_loaded loader source_name url =
     (case loader url of
        Inl e \<Rightarrow> []
      | Inr loaded \<Rightarrow> map (add_source_metadata source_name url) loaded)"

text \<open>A loader that finds one page and fails on every other URL, and a splitter that
  cuts a text in two.\<close>

definition one_page_loader :: "string \<Rightarrow> load_error + document list" where
  "one_page_loader url =
     (if url = ''https://python.langchain.com/docs/introduction/''
      then Inr [\<lparr>page_content = ''Introduction'', metadata = Map.empty\<rparr>]
      else Inl (LoadError ''404''))"

definition halves :: "string \<Rightarrow> string list" where
  "halves s = [take (length s div 2) s, drop (length s div 2) s]"

text \<open>A text without braces.\<close>

definition brace_free :: "string \<Rightarrow> bool" where
  "brace_free s = (CHR ''{'' \<notin> set s \<and> CHR ''}'' \<notin> set s)"

text \<open>A page whose cleaned text is longer than 50 characters.\<close>

definition intro_doc :: document where
  "intro_doc = \<lparr>page_content = ''LangChain is a framework for developing applications powered by large language models.\<newline>Search\<newline>It simplifies every stage of the application lifecycle.'', metadata = [''source_framework'' \<mapsto> ''langchain'']\<rparr>"

section \<open>Properties\<close>

subsection \<open>Helper lemmas on strings\<close>

lemma startswith_iff: "startswith s p = (\<exists>post. s = p @ post)"
  by (induction s p rule: startswith.induct) auto

lemma str_in_iff: "str_in sub s = (\<exists>pre post. s = pre @ sub @ post)"
proof (induction s)
  case Nil
  then show ?case by auto
next
  case (Cons c cs)
  show ?case
  proof
    assume "str_in sub (c # cs)"
    then consider "startswith (c # cs) sub" | "str_in sub cs" by auto
    then show "\<exists>pre post. c # cs = pre @ sub @ post"
    proof cases
      case 1
      then obtain post where "c # cs = sub @ post" by (auto simp: startswith_iff)
      then have "c # cs = [] @ sub @ post" by simp
      then show ?thesis by blast
    next
      case 2
      then obtain pre post where "cs = pre @ sub @ post" using Cons.IH by blast
      then have "c # cs = (c # pre) @ sub @ post" by simp
      then show ?thesis by blast
    qed
  next
    assume "\<exists>pre post. c # cs = pre @ sub @ post"
    then obtain pre post where e: "c # cs = pre @ sub @ post" by blast
    show "str_in sub (c # cs)"
    proof (cases pre)
      case Nil
      then have "startswith (c # cs) sub" using e by (auto simp: startswith_iff)
      then show ?thesis by simp
    next
      case (Cons p pre')
      then have "cs = pre' @ sub @ post" using e by simp
      then have "str_in sub cs" using Cons.IH by blast
      then show ?thesis by simp
    qed
  qed
qed

lemma count_sub_str_in: "0 < count_sub sub s \<Longrightarrow> str_in sub s"
  by (induction sub s rule: count_sub.induct) (auto split: if_splits)

lemma join_nonempty: "xs \<noteq> [] \<Longrightarrow> (\<forall>x\<in>set xs. x \<noteq> []) \<Longrightarrow> join sep xs \<noteq> []"
  by (induction sep xs rule: join.induct) auto

lemma verdict_not_Discard: "(v \<noteq> Discard) = (v = Keep)"
  by (cases v) auto

subsection \<open>The history window\<close>

lemma format_chat_history_loop_eq:
  "format_chat_history_loop history formatted = formatted @ concat (map turn_lines history)"
  by (induction history arbitrary: formatted) (auto simp: turn_lines_def)

lemma slice_last3_eq: "slice_last3 xs = last_turns 3 xs"
  by (auto simp: slice_last3_def last_turns_def Let_def rev_take nat_diff_distrib)

lemma last_turns_append: "\<exists>dropped. xs = dropped @ last_turns n xs"
proof -
  have "xs = take (length xs - n) xs @ drop (length xs - n) xs" by simp
  moreover have "last_turns n xs = drop (length xs - n) xs"
    by (simp add: last_turns_def rev_take)
  ultimately show ?thesis by metis
qed

text \<open>
  Claim C3. For every history of turns, the text given to the prompt is built from the
  last three turns only (from all of them when there are fewer): each of these turns
  gives a line \<open>User: ...\<close> and a line \<open>Assistant: ...\<close>, in the order of the
  history, joined by newlines; the turns before them are dropped; the empty history
  gives the fixed text \<open>No previous conversation.\<close>
\<close>

theorem history_window_last_three:
  "history_window history =
     (if history = [] then ''No previous conversation.''
      else join [CHR 0x0A] (concat (map turn_lines (last_turns 3 history))))
   \<and> length (last_turns 3 history) = min 3 (length history)
   \<and> (\<exists>dropped. history = dropped @ last_turns 3 history)"
proof -
  have ne: "history \<noteq> [] \<Longrightarrow> last_turns 3 history \<noteq> []"
    by (cases history rule: rev_cases) (auto simp: last_turns_def)
  have e: "last_turns 3 [] = ([] :: (string \<times> string) list)" by (simp add: last_turns_def)
  have "history_window history =
     (if history = [] then ''No previous conversation.''
      else join [CHR 0x0A] (concat (map turn_lines (last_turns 3 history))))"
    using ne e by (auto simp: history_window_def format_chat_history_def slice_last3_eq
        format_chat_history_loop_eq)
  moreover have "length (last_turns 3 history) = min 3 (length history)"
    by (simp add: last_turns_def)
  ultimately show ?thesis using last_turns_append[of history 3] by blast
qed

text \<open>
  The window of a history of four turns holds the turns 2, 3 and 4.
\<close>

theorem history_window_last_three_witness:
  "history_window [(''q1'', ''a1''), (''q2'', ''a2''), (''q3'', ''a3''), (''q4'', ''a4'')] =
     ''User: q2\<newline>Assistant: a2\<newline>User: q3\<newline>Assistant: a3\<newline>User: q4\<newline>Assistant: a4''"
  using history_window_last_three
    [of "[(''q1'', ''a1''), (''q2'', ''a2''), (''q3'', ''a3''), (''q4'', ''a4'')]"]
  by (simp add: last_turns_def turn_lines_def)

subsection \<open>The quality filter\<close>

text \<open>
  Claim C4, as the code has it. A page is discarded if and only if its text contains
  \<open>Redirecting\<close>, or its stripped text is shorter than 100 characters, or its text
  contains \<open>Skip to main content\<close> and is shorter than 200 characters. In
  particular a page shorter than 200 characters with more than two occurrences of
  \<open>Skip to main content\<close> is discarded.
\<close>

theorem quality_filter_discard_iff:
  "(quality_filter txt = Discard) =
     ((\<exists>pre post. txt = pre @ ''Redirecting'' @ post)
      \<or> length (strip txt) < 100
      \<or> ((\<exists>pre post. txt = pre @ ''Skip to main content'' @ post) \<and> length txt < 200))
   \<and> (2 < count_sub ''Skip to main content'' txt \<and> length txt < 200
        \<longrightarrow> quality_filter txt = Discard)"
proof -
  have a: "(quality_filter txt = Discard) =
     (str_in ''Redirecting'' txt \<or> length (strip txt) < 100
      \<or> (str_in ''Skip to main content'' txt \<and> length txt < 200))"
    by (simp add: quality_filter_def)
  have b: "2 < count_sub ''Skip to main content'' txt \<Longrightarrow>
           str_in ''Skip to main content'' txt"
    by (rule count_sub_str_in) simp
  show ?thesis using a b unfolding str_in_iff by blast
qed

text \<open>
  The page of the scenario, three times \<open>Skip to main content\<close>, is discarded.
\<close>

theorem quality_filter_discard_iff_witness:
  "2 < count_sub ''Skip to main content''
         ''Skip to main content Skip to main content Skip to main content''
   \<and> length ''Skip to main content Skip to main content Skip to main content'' < 200
   \<and> quality_filter ''Skip to main content Skip to main content Skip to main content'' = Discard"
  using quality_filter_discard_iff
    [of "''Skip to main content Skip to main content Skip to main content''"]
  by simp

text \<open>
  Claim C4 as stated fails: the number of occurrences of the navigation marker is not
  what the code tests. A page of 205 characters with three occurrences of
  \<open>Skip to main content\<close> is kept.
\<close>

theorem quality_filter_three_markers_kept:
  "2 < count_sub ''Skip to main content''
         ''Skip to main content Skip to main content Skip to main content LangChain is a framework for developing applications powered by large language models. It simplifies every stage of the application lifecycle.''
   \<and> quality_filter
         ''Skip to main content Skip to main content Skip to main content LangChain is a framework for developing applications powered by large language models. It simplifies every stage of the application lifecycle.''
       = Keep"
  by (simp add: quality_filter_def strip_def isspace_def)

subsection \<open>The context built by \<open>format_docs\<close>\<close>

lemma format_docs_loop_eq:
  "length formatted < 5 \<Longrightarrow>
   format_docs_loop upper docs formatted =
     formatted @ entries_from upper (Suc (length formatted))
                   (take (5 - length formatted) (filter included docs))"
proof (induction docs arbitrary: formatted)
  case Nil
  then show ?case by simp
next
  case (Cons d docs)
  show ?case
  proof (cases "included d")
    case False
    then show ?thesis using Cons by (auto simp: included_def Let_def verdict_not_Discard)
  next
    case True
    then have k: "quality_filter (page_content d) = Keep"
      and l: "50 < length (clean_content (page_content d))"
      by (auto simp: included_def)
    show ?thesis
    proof (cases "length formatted = 4")
      case True
      then show ?thesis using k l \<open>included d\<close> by (simp add: Let_def)
    next
      case False
      with Cons.prems have lt: "length (formatted @ [entry upper (Suc (length formatted)) d]) < 5"
        by simp
      have "5 - length formatted = Suc (5 - Suc (length formatted))" using Cons.prems by simp
      then show ?thesis using k l \<open>included d\<close> False Cons.prems Cons.IH[OF lt]
        by (simp add: Let_def)
    qed
  qed
qed

lemma length_entries_from [simp]: "length (entries_from upper n docs) = length docs"
  by (induction docs arbitrary: n) auto

lemma entries_from_Nil_iff: "(entries_from upper n docs = []) = (docs = [])"
  by (cases docs) auto

lemma entries_from_nonempty: "e \<in> set (entries_from upper n docs) \<Longrightarrow> e \<noteq> []"
  by (induction docs arbitrary: n) (auto simp: entry_def)

lemma clean_content_fifty_doc: "clean_content (page_content fifty_doc) = ''aaaaaaaaaaaaaaaaaaaaaaaaaaaaaaaaaaaaaaaaaaaaaaaaaa''"
  by (simp add: fifty_doc_def clean_content_def strip_def isspace_def)

lemma quality_filter_fifty_doc: "quality_filter (page_content fifty_doc) = Keep"
  by (simp add: fifty_doc_def quality_filter_def strip_def isspace_def)

lemma clean_content_intro_doc:
  "clean_content (page_content intro_doc) = ''LangChain is a framework for developing applications powered by large language models. It simplifies every stage of the application lifecycle.''"
  by (simp add: intro_doc_def clean_content_def strip_def isspace_def)

lemma quality_filter_intro_doc: "quality_filter (page_content intro_doc) = Keep"
  by (simp add: intro_doc_def quality_filter_def strip_def isspace_def)

lemma entry_intro_doc:
  "entry ascii_upper (Suc 0) intro_doc =
     ''[Document 1 - LANGCHAIN]\<newline>LangChain is a framework for developing applications powered by large language models. It simplifies every stage of the application lifecycle.\<newline>''"
proof -
  have 1: "str_nat (Suc 0) = ''1''" by code_simp
  have 2: "ascii_upper ''langchain'' = ''LANGCHAIN''" by code_simp
  have 3: "get (metadata intro_doc) ''source_framework'' ''unknown'' = ''langchain''"
    by (simp add: intro_doc_def get_def)
  show ?thesis unfolding entry_def 1 2 3 clean_content_intro_doc by simp
qed

text \<open>
  Claim C5. For every list of documents, \<open>format_docs\<close> collects at most five
  entries, however many documents pass; the result is these entries joined by the
  separator line \<open>---\<close>, and the fixed text
  \<open>No relevant documentation found in the knowledge base.\<close> when no document
  passes; the result is never the empty string.
\<close>

theorem format_docs_at_most_five:
  "length (format_docs_loop upper docs []) \<le> 5
   \<and> format_docs upper docs =
       (if filter included docs = []
        then ''No relevant documentation found in the knowledge base.''
        else join ''\<newline>---\<newline>'' (entries_from upper 1 (take 5 (filter included docs))))
   \<and> format_docs upper docs \<noteq> []"
proof -
  let ?sel = "take 5 (filter included docs)"
  have loop: "format_docs_loop upper docs [] = entries_from upper (Suc 0) ?sel"
    using format_docs_loop_eq[of "[]" upper docs] by simp
  have emp: "(entries_from upper (Suc 0) ?sel = []) = (filter included docs = [])"
    by (simp add: entries_from_Nil_iff)
  have eq: "format_docs upper docs =
       (if filter included docs = []
        then ''No relevant documentation found in the knowledge base.''
        else join ''\<newline>---\<newline>'' (entries_from upper (Suc 0) ?sel))"
    by (simp add: format_docs_def loop emp Let_def)
  have "format_docs upper docs \<noteq> []"
  proof (cases "filter included docs = []")
    case True
    then show ?thesis using eq by simp
  next
    case False
    then have "entries_from upper (Suc 0) ?sel \<noteq> []" using emp by simp
    then have "join ''\<newline>---\<newline>'' (entries_from upper (Suc 0) ?sel) \<noteq> []"
      by (rule join_nonempty) (auto dest: entries_from_nonempty)
    then show ?thesis using eq False by simp
  qed
  moreover have "length (format_docs_loop upper docs []) \<le> 5"
    unfolding loop by simp
  ultimately show ?thesis using eq by simp
qed

text \<open>
  For a list whose only page is skipped, the result is the fixed text.
\<close>

theorem format_docs_at_most_five_witness:
  "format_docs ascii_upper [fifty_doc] = ''No relevant documentation found in the knowledge base.''"
  using format_docs_at_most_five[where upper = ascii_upper and docs = "[fifty_doc]"]
  by (simp add: included_def clean_content_fifty_doc)

text \<open>
  Claim C6, as the code has it. Of the documents that pass the quality filter, the
  loop skips exactly those whose cleaned text has 50 characters or fewer; the others
  are included in their order, up to five of them, each with its source and with its
  number among the included documents, counted from 1.
\<close>

theorem format_docs_loop_selects:
  "format_docs_loop upper docs [] =
     entries_from upper 1
       (take 5 (filter (\<lambda>doc. quality_filter (page_content doc) = Keep
                              \<and> 50 < length (clean_content (page_content doc))) docs))"
proof -
  have "included = (\<lambda>doc. quality_filter (page_content doc) = Keep
                          \<and> 50 < length (clean_content (page_content doc)))"
    by (rule ext) (simp add: included_def)
  then show ?thesis using format_docs_loop_eq[of "[]" upper docs] by simp
qed

text \<open>
  Of a page with 50 cleaned characters and a longer one, the second is the only entry,
  and has the number 1.
\<close>

theorem format_docs_loop_selects_witness:
  "format_docs_loop ascii_upper [fifty_doc, intro_doc] [] =
     [''[Document 1 - LANGCHAIN]\<newline>LangChain is a framework for developing applications powered by large language models. It simplifies every stage of the application lifecycle.\<newline>'']"
  using format_docs_loop_selects[where upper = ascii_upper and docs = "[fifty_doc, intro_doc]"]
  by (simp add: clean_content_fifty_doc quality_filter_fifty_doc clean_content_intro_doc
      quality_filter_intro_doc entry_intro_doc)

text \<open>
  Claim C6 as stated fails at the boundary: a page that passes the quality filter and
  whose cleaned text has exactly 50 characters is skipped.
\<close>

theorem format_docs_skips_fifty:
  "quality_filter (page_content fifty_doc) = Keep
   \<and> length (clean_content (page_content fifty_doc)) = 50
   \<and> format_docs_loop ascii_upper [fifty_doc] [] = []"
  by (simp add: clean_content_fifty_doc quality_filter_fifty_doc)

subsection \<open>The prompt\<close>

lemma parse_text_prefix:
  "brace_free s \<Longrightarrow> parse_template (s @ rest) lit None = parse_template rest (lit @ s) None"
  by (induction s arbitrary: lit) (auto simp: brace_free_def)

lemma parse_name_prefix:
  "brace_free s \<Longrightarrow>
   parse_template (s @ rest) lit (Some name) = parse_template rest lit (Some (name @ s))"
  by (induction s arbitrary: name) (auto simp: brace_free_def)

lemma parse_text_line:
  assumes "brace_free l"
  shows "parse_template (join [CHR 0x0A] (l # l' # ls)) lit None =
         parse_template (join [CHR 0x0A] (l' # ls)) (lit @ l @ [CHR 0x0A]) None"
proof -
  have "brace_free (l @ [CHR 0x0A])" using assms by (simp add: brace_free_def)
  from parse_text_prefix[OF this, of "join [CHR 0x0A] (l' # ls)" lit] show ?thesis by simp
qed

lemma parse_last_line:
  "brace_free l \<Longrightarrow> parse_template (join [CHR 0x0A] [l]) lit None = Some [Lit (lit @ l)]"
  using parse_text_prefix[of l "[]" lit] by simp

lemma parse_field_line:
  assumes "brace_free name"
  shows "parse_template (join [CHR 0x0A] ((CHR ''{'' # name @ ''}'') # l' # ls)) lit None =
         (case parse_template (join [CHR 0x0A] (l' # ls)) [CHR 0x0A] None of
            None \<Rightarrow> None
          | Some ps \<Rightarrow> Some (Lit lit # Field name # ps))"
proof -
  have n: "brace_free [CHR 0x0A]" by (simp add: brace_free_def)
  show ?thesis
    using parse_name_prefix[OF assms, of "CHR ''}'' # CHR 0x0A # join [CHR 0x0A] (l' # ls)" "[]" "[]"]
          parse_text_prefix[OF n, of "join [CHR 0x0A] (l' # ls)" "[]"]
    by (simp split: option.splits)
qed

lemma parse_field_lines:
  "parse_template (join [CHR 0x0A] (''{context}'' # l' # ls)) lit None =
   (case parse_template (join [CHR 0x0A] (l' # ls)) [CHR 0x0A] None of
      None \<Rightarrow> None
    | Some ps \<Rightarrow> Some (Lit lit # Field ''context'' # ps))"
  "parse_template (join [CHR 0x0A] (''{chat_history}'' # l' # ls)) lit None =
   (case parse_template (join [CHR 0x0A] (l' # ls)) [CHR 0x0A] None of
      None \<Rightarrow> None
    | Some ps \<Rightarrow> Some (Lit lit # Field ''chat_history'' # ps))"
  "parse_template (join [CHR 0x0A] (''{question}'' # l' # ls)) lit None =
   (case parse_template (join [CHR 0x0A] (l' # ls)) [CHR 0x0A] None of
      None \<Rightarrow> None
    | Some ps \<Rightarrow> Some (Lit lit # Field ''question'' # ps))"
  using parse_field_line[of "''context''" l' ls lit]
        parse_field_line[of "''chat_history''" l' ls lit]
        parse_field_line[of "''question''" l' ls lit]
  by (simp_all add: brace_free_def del: join.simps)

lemma parse_RAG_PROMPT_TEMPLATE:
  "\<exists>instructions before_history before_question closing.
     parse_template RAG_PROMPT_TEMPLATE [] None =
       Some [Lit instructions, Field ''context'', Lit before_history, Field ''chat_history'',
             Lit before_question, Field ''question'', Lit closing]
     \<and> startswith instructions ''You are an expert assistant''"
  unfolding RAG_PROMPT_TEMPLATE_def
  by (simp add: parse_text_line parse_last_line parse_field_lines brace_free_def del: join.simps)

text \<open>
  Claim C8. The template consists of four fixed texts with the three fields
  \<open>context\<close>, \<open>chat_history\<close> and \<open>question\<close> between them, each field once and
  in this order, the first text being the system instructions. For every context,
  history and question the prompt is the template with the three values put in the
  place of their fields, and nothing else changed.
\<close>

theorem assemble_slots:
  "\<exists>instructions before_history before_question closing.
     parse_template RAG_PROMPT_TEMPLATE [] None =
       Some [Lit instructions, Field ''context'', Lit before_history, Field ''chat_history'',
             Lit before_question, Field ''question'', Lit closing]
     \<and> startswith instructions ''You are an expert assistant''
     \<and> (\<forall>ctx history question.
           assemble ctx history question =
             Some (instructions @ ctx @ before_history @ history @ before_question
                   @ question @ closing))"
proof -
  obtain instructions before_history before_question closing where
    p: "parse_template RAG_PROMPT_TEMPLATE [] None =
       Some [Lit instructions, Field ''context'', Lit before_history, Field ''chat_history'',
             Lit before_question, Field ''question'', Lit closing]"
    and s: "startswith instructions ''You are an expert assistant''"
    using parse_RAG_PROMPT_TEMPLATE by blast
  have "\<forall>ctx history question.
           assemble ctx history question =
             Some (instructions @ ctx @ before_history @ history @ before_question
                   @ question @ closing)"
    by (simp add: assemble_def format_template_def p)
  then show ?thesis using p s by blast
qed

text \<open>
  The prompt for one context, history and question.
\<close>

theorem assemble_slots_witness:
  "\<exists>instructions before_history before_question closing.
     assemble ''CTX'' ''HIST'' ''What is RAG?'' =
       Some (instructions @ ''CTX'' @ before_history @ ''HIST'' @ before_question
             @ ''What is RAG?'' @ closing)"
  using assemble_slots by blast

subsection \<open>The stream of the answer\<close>

lemma stream_loop_raise:
  "stream_loop (chunks_then chunks (StreamRaise e)) full_response temp =
     (chunks @ [''Error: '' @ e], temp)"
  by (induction chunks arbitrary: full_response) auto

lemma stream_loop_end:
  "stream_loop (chunks_then chunks StreamEnd) full_response temp =
     (chunks, Some (full_response @ concat chunks))"
  by (induction chunks arbitrary: full_response) auto

text \<open>
  Claim C1, as the code has it. When the model call raises an exception after some
  chunks (or none), \<open>stream_response\<close> yields these chunks unchanged and then one
  more string, \<open>Error: \<close> followed by the text of the exception; the stream does not
  end silently, \<open>temp_response\<close> is left as it was, and the answer that
  \<open>st.write_stream\<close> returns ends with the error text.
\<close>

theorem stream_response_raise:
  "stream_response (chunks_then chunks (StreamRaise e)) temp = (chunks @ [''Error: '' @ e], temp)
   \<and> write_stream (fst (stream_response (chunks_then chunks (StreamRaise e)) temp))
       = concat chunks @ ''Error: '' @ e"
  by (simp add: stream_response_def stream_loop_raise write_stream_def)

text \<open>
  The stream of one chunk and an exception.
\<close>

theorem stream_response_raise_witness:
  "stream_response (StreamChunk ''Lang'' (StreamRaise ''rate limit'')) (Some ''old'')
     = ([''Lang'', ''Error: rate limit''], Some ''old'')"
  using stream_response_raise[of "[''Lang'']" "''rate limit''" "Some ''old''"] by simp

text \<open>
  Claim C1 as stated fails: the error text is yielded among the chunks of the answer.
\<close>

theorem stream_response_error_fragment:
  "fst (stream_response (StreamChunk ''Lang'' (StreamChunk ''Chain is'' (StreamRaise ''rate limit''))) None)
     = [''Lang'', ''Chain is'', ''Error: rate limit'']"
  by (simp add: stream_response_def)

subsection \<open>The conversation store\<close>

lemma derived_title_not_sentinel:
  assumes "cnt \<noteq> ''New Chat''"
  shows "(if length cnt > 50 then take 50 cnt @ ''...'' else cnt) \<noteq> ''New Chat''"
proof (cases "length cnt > 50")
  case True
  then have "length (take 50 cnt @ ''...'') = 53" by simp
  then have "take 50 cnt @ ''...'' \<noteq> ''New Chat''" by auto
  then show ?thesis using True by simp
next
  case False
  then show ?thesis using assms by simp
qed

lemma add_message_first_user_title:
  assumes "conversations db cid = Some c" and "title c = ''New Chat''"
    and "seq_value out \<notin> set (map msg_id (chat_messages db))"
  shows "map_option title (conversations (snd (add_message out cid ''user'' cnt db)) cid)
           = Some (if length cnt > 50 then take 50 cnt @ ''...'' else cnt)"
  using assms by (simp add: add_message_def Let_def fits_def)

text \<open>
  Claim C10. A call of \<open>add_message\<close> with the role \<open>assistant\<close>, or for a
  conversation whose title is not \<open>New Chat\<close>, leaves every title as it is. If the call
  raises, the tables are unchanged. If it returns, the conversation exists, and the call
  has inserted the message row and set \<open>updated_at\<close> of the conversation, and changed
  nothing else. It returns exactly when the role fits its column, the key of the new
  row is not in the table and the conversation exists.
\<close>

theorem add_message_title_frame:
  assumes "rl = ''assistant'' \<or> (\<exists>c. conversations db cid = Some c \<and> title c \<noteq> ''New Chat'')"
  shows "(\<forall>k. map_option title (conversations (snd (add_message out cid rl cnt db)) k)
                = map_option title (conversations db k))
         \<and> (case fst (add_message out cid rl cnt db) of
               Inl e \<Rightarrow> snd (add_message out cid rl cnt db) = db
             | Inr i \<Rightarrow>
                 i = seq_value out
                 \<and> (\<exists>c. conversations db cid = Some c
                        \<and> snd (add_message out cid rl cnt db) =
                            db\<lparr>conversations :=
                                 (conversations db)(cid \<mapsto> c\<lparr>updated_at := utcnow2 out\<rparr>),
                               chat_messages := chat_messages db
                                 @ [\<lparr>msg_id = seq_value out, conversation_id = cid,
                                     role = take 10 rl, content = cnt,
                                     msg_created_at = utcnow1 out\<rparr>]\<rparr>))
         \<and> (fst (add_message out cid rl cnt db) = Inr (seq_value out))
             = (fits 10 rl \<and> seq_value out \<notin> set (map msg_id (chat_messages db))
                \<and> conversations db cid \<noteq> None)"
  using assms by (auto simp: add_message_def Let_def split: option.splits)

text \<open>
  An answer stored in a new conversation leaves the title \<open>New Chat\<close>; the two times
  written are the two readings of the clock.
\<close>

theorem add_message_title_frame_witness:
  "add_message \<lparr>seq_value = 1, utcnow1 = 2, utcnow2 = 3\<rparr> 1 ''assistant'' ''Hello!''
     one_conversation
   = (Inr 1,
      \<lparr>conversations = [1 \<mapsto> \<lparr>user_id = 1, title = ''New Chat'', created_at = 1, updated_at = 3\<rparr>],
       chat_messages = [\<lparr>msg_id = 1, conversation_id = 1, role = ''assistant'',
                         content = ''Hello!'', msg_created_at = 2\<rparr>]\<rparr>)"
proof -
  have c: "conversations one_conversation 1
             = Some \<lparr>user_id = 1, title = ''New Chat'', created_at = 1, updated_at = 1\<rparr>"
    and m: "chat_messages one_conversation = []"
    and o: "one_conversation =
             \<lparr>conversations = [1 \<mapsto> \<lparr>user_id = 1, title = ''New Chat'', created_at = 1,
                                       updated_at = 1\<rparr>], chat_messages = []\<rparr>"
    by (simp_all add: one_conversation_def create_conversation_def init_database_def fits_def)
  show ?thesis
    using add_message_title_frame
      [where rl = "''assistant''" and db = one_conversation and cid = 1
         and out = "\<lparr>seq_value = 1, utcnow1 = 2, utcnow2 = 3\<rparr>" and cnt = "''Hello!''"]
    by (cases "add_message \<lparr>seq_value = 1, utcnow1 = 2, utcnow2 = 3\<rparr> 1 ''assistant'' ''Hello!''
                 one_conversation")
       (auto simp: c m o fits_def split: sum.splits)
qed

text \<open>
  Claim C7 fails on the code when the first user message is the text \<open>New Chat\<close>
  itself: the title derived from it is again \<open>New Chat\<close>, and the next user message
  of the conversation changes the title a second time.
\<close>

theorem title_derived_again:
  "map_option title
     (conversations
        (snd (add_message \<lparr>seq_value = 1, utcnow1 = 2, utcnow2 = 2\<rparr> 1 ''user'' ''New Chat''
               (snd (create_conversation \<lparr>seq_value = 1, utcnow1 = 1, utcnow2 = 1\<rparr> 7
                       ''New Chat'' init_database)))) 1)
     = Some ''New Chat''
   \<and> map_option title
     (conversations
        (snd (add_message \<lparr>seq_value = 3, utcnow1 = 4, utcnow2 = 4\<rparr> 1 ''user'' ''What is RAG?''
          (snd (add_message \<lparr>seq_value = 2, utcnow1 = 3, utcnow2 = 3\<rparr> 1 ''assistant'' ''Hello!''
            (snd (add_message \<lparr>seq_value = 1, utcnow1 = 2, utcnow2 = 2\<rparr> 1 ''user'' ''New Chat''
               (snd (create_conversation \<lparr>seq_value = 1, utcnow1 = 1, utcnow2 = 1\<rparr> 7
                       ''New Chat'' init_database)))))))) 1)
     = Some ''What is RAG?''"
  by (simp add: add_message_def create_conversation_def init_database_def Let_def fits_def)

subsection \<open>The chat page and the owner of a conversation\<close>

lemma add_user_message_existing:
  assumes "current_conversation_id ss = Some cid" and "cid \<noteq> 0"
  shows "add_user_message now conv_out msg_out prompt (ss, db) =
     (fst (add_message msg_out cid ''user'' prompt db),
      ss\<lparr>messages := messages ss
            @ [\<lparr>sm_role = ''user'', sm_content = prompt, sm_timestamp = now\<rparr>]\<rparr>,
      snd (add_message msg_out cid ''user'' prompt db))"
  using assms
  by (simp add: add_user_message_def add_session_message_def no_conversation_def Let_def
      split: prod.splits)

text \<open>
  Claim C2, as the code has it. For a request with a current conversation id, the
  owner is not checked, and the only check is that of the insert in \<open>add_message\<close>. If
  no conversation has the id (or the key of the new row is in the table already), the
  call raises and the tables are unchanged: no message row, no change of a title or a
  time, no deletion. If a conversation has the id, whoever owns it, the user message is
  inserted, the title of the conversation is derived from the prompt if it is
  \<open>New Chat\<close>, its \<open>updated_at\<close> is set, and nothing else changes. The result of the
  request does not depend on the user of the session. \<open>delete_conversation\<close> removes
  the conversation of an id and the messages of that conversation, for any caller, and
  keeps every other row.
\<close>

theorem add_user_message_no_owner_check:
  assumes "current_conversation_id ss = Some cid" and "cid \<noteq> 0"
  shows "(case conversations db cid of
            None \<Rightarrow>
              fst (add_user_message now conv_out msg_out prompt (ss, db)) = Inl IntegrityError
              \<and> snd (snd (add_user_message now conv_out msg_out prompt (ss, db))) = db
          | Some c \<Rightarrow>
              if seq_value msg_out \<in> set (map msg_id (chat_messages db))
              then fst (add_user_message now conv_out msg_out prompt (ss, db)) = Inl IntegrityError
                   \<and> snd (snd (add_user_message now conv_out msg_out prompt (ss, db))) = db
              else fst (add_user_message now conv_out msg_out prompt (ss, db))
                     = Inr (seq_value msg_out)
                   \<and> snd (snd (add_user_message now conv_out msg_out prompt (ss, db))) =
                       db\<lparr>conversations := (conversations db)
                            (cid \<mapsto> c\<lparr>title := (if title c = ''New Chat''
                                                 then (if length prompt > 50
                                                       then take 50 prompt @ ''...''
                                                       else prompt)
                                                 else title c),
                                      updated_at := utcnow2 msg_out\<rparr>),
                          chat_messages := chat_messages db
                            @ [\<lparr>msg_id = seq_value msg_out, conversation_id = cid,
                                role = ''user'', content = prompt,
                                msg_created_at = utcnow1 msg_out\<rparr>]\<rparr>)
         \<and> fst (add_user_message now conv_out msg_out prompt (ss\<lparr>session_user_id := caller\<rparr>, db))
             = fst (add_user_message now conv_out msg_out prompt (ss, db))
         \<and> snd (snd (add_user_message now conv_out msg_out prompt
                        (ss\<lparr>session_user_id := caller\<rparr>, db)))
             = snd (snd (add_user_message now conv_out msg_out prompt (ss, db)))
         \<and> delete_conversation cid db =
             (True, db\<lparr>chat_messages := filter (\<lambda>m. conversation_id m \<noteq> cid) (chat_messages db),
                       conversations := (conversations db)(cid := None)\<rparr>)
         \<and> (\<forall>k. conversations (snd (delete_conversation cid db)) k
                  = (if k = cid then None else conversations db k))
         \<and> (\<forall>k. filter (\<lambda>m. conversation_id m = k) (chat_messages (snd (delete_conversation cid db)))
                  = (if k = cid then []
                     else filter (\<lambda>m. conversation_id m = k) (chat_messages db)))"
proof -
  have a: "current_conversation_id (ss\<lparr>session_user_id := caller\<rparr>) = Some cid"
    using assms by simp
  have u: "fits 10 ''user''" by (simp add: fits_def)
  have 1: "(case conversations db cid of
            None \<Rightarrow>
              fst (add_user_message now conv_out msg_out prompt (ss, db)) = Inl IntegrityError
              \<and> snd (snd (add_user_message now conv_out msg_out prompt (ss, db))) = db
          | Some c \<Rightarrow>
              if seq_value msg_out \<in> set (map msg_id (chat_messages db))
              then fst (add_user_message now conv_out msg_out prompt (ss, db)) = Inl IntegrityError
                   \<and> snd (snd (add_user_message now conv_out msg_out prompt (ss, db))) = db
              else fst (add_user_message now conv_out msg_out prompt (ss, db))
                     = Inr (seq_value msg_out)
                   \<and> snd (snd (add_user_message now conv_out msg_out prompt (ss, db))) =
                       db\<lparr>conversations := (conversations db)
                            (cid \<mapsto> c\<lparr>title := (if title c = ''New Chat''
                                                 then (if length prompt > 50
                                                       then take 50 prompt @ ''...''
                                                       else prompt)
                                                 else title c),
                                      updated_at := utcnow2 msg_out\<rparr>),
                          chat_messages := chat_messages db
                            @ [\<lparr>msg_id = seq_value msg_out, conversation_id = cid,
                                role = ''user'', content = prompt,
                                msg_created_at = utcnow1 msg_out\<rparr>]\<rparr>)"
    unfolding add_user_message_existing[OF assms]
    using u by (simp add: add_message_def Let_def split: option.splits)
  have 2: "fst (add_user_message now conv_out msg_out prompt (ss\<lparr>session_user_id := caller\<rparr>, db))
             = fst (add_user_message now conv_out msg_out prompt (ss, db))"
    and 3: "snd (snd (add_user_message now conv_out msg_out prompt
                        (ss\<lparr>session_user_id := caller\<rparr>, db)))
             = snd (snd (add_user_message now conv_out msg_out prompt (ss, db)))"
    unfolding add_user_message_existing[OF assms] add_user_message_existing[OF a \<open>cid \<noteq> 0\<close>]
    by simp_all
  have 4: "delete_conversation cid db =
             (True, db\<lparr>chat_messages := filter (\<lambda>m. conversation_id m \<noteq> cid) (chat_messages db),
                       conversations := (conversations db)(cid := None)\<rparr>)"
    by (simp add: delete_conversation_def)
  have 5: "\<forall>k. conversations (snd (delete_conversation cid db)) k
                  = (if k = cid then None else conversations db k)"
    by (simp add: delete_conversation_def)
  have 6: "\<forall>k. filter (\<lambda>m. conversation_id m = k) (chat_messages (snd (delete_conversation cid db)))
                  = (if k = cid then []
                     else filter (\<lambda>m. conversation_id m = k) (chat_messages db))"
  proof
    fix k
    have "filter (\<lambda>m. conversation_id m = k) (filter (\<lambda>m. conversation_id m \<noteq> cid) (chat_messages db))
          = filter (\<lambda>m. conversation_id m \<noteq> cid \<and> conversation_id m = k) (chat_messages db)"
      by (simp add: conj_commute)
    also have "\<dots> = (if k = cid then []
                     else filter (\<lambda>m. conversation_id m = k) (chat_messages db))"
      by (auto intro: filter_cong simp: filter_empty_conv)
    finally show "filter (\<lambda>m. conversation_id m = k)
                    (chat_messages (snd (delete_conversation cid db)))
                  = (if k = cid then []
                     else filter (\<lambda>m. conversation_id m = k) (chat_messages db))"
      by (simp add: delete_conversation_def)
  qed
  show ?thesis using 1 2 3 4 5 6 by blast
qed

text \<open>
  The conversation 1 belongs to user 1. The request of user 2 for it stores the message
  and sets the title and the time. For the conversation 2, which does not exist, the
  same request is rejected and the tables are unchanged.
\<close>

theorem add_user_message_no_owner_check_witness:
  "map_option user_id (conversations one_conversation 1) = Some 1
   \<and> session_user_id guest_session = 2
   \<and> fst (add_user_message 5 \<lparr>seq_value = 2, utcnow1 = 5, utcnow2 = 5\<rparr>
            \<lparr>seq_value = 1, utcnow1 = 6, utcnow2 = 7\<rparr> ''hi'' (guest_session, one_conversation))
       = Inr 1
   \<and> snd (snd (add_user_message 5 \<lparr>seq_value = 2, utcnow1 = 5, utcnow2 = 5\<rparr>
            \<lparr>seq_value = 1, utcnow1 = 6, utcnow2 = 7\<rparr> ''hi'' (guest_session, one_conversation)))
       = \<lparr>conversations = [1 \<mapsto> \<lparr>user_id = 1, title = ''hi'', created_at = 1, updated_at = 7\<rparr>],
          chat_messages = [\<lparr>msg_id = 1, conversation_id = 1, role = ''user'', content = ''hi'',
                            msg_created_at = 6\<rparr>]\<rparr>
   \<and> fst (add_user_message 5 \<lparr>seq_value = 2, utcnow1 = 5, utcnow2 = 5\<rparr>
            \<lparr>seq_value = 1, utcnow1 = 6, utcnow2 = 7\<rparr> ''hi''
            (guest_session\<lparr>current_conversation_id := Some 2\<rparr>, one_conversation))
       = Inl IntegrityError
   \<and> snd (snd (add_user_message 5 \<lparr>seq_value = 2, utcnow1 = 5, utcnow2 = 5\<rparr>
            \<lparr>seq_value = 1, utcnow1 = 6, utcnow2 = 7\<rparr> ''hi''
            (guest_session\<lparr>current_conversation_id := Some 2\<rparr>, one_conversation)))
       = one_conversation"
proof -
  have o: "one_conversation =
             \<lparr>conversations = [1 \<mapsto> \<lparr>user_id = 1, title = ''New Chat'', created_at = 1,
                                       updated_at = 1\<rparr>], chat_messages = []\<rparr>"
    by (simp add: one_conversation_def create_conversation_def init_database_def fits_def)
  have g1: "current_conversation_id guest_session = Some 1"
    and g2: "current_conversation_id (guest_session\<lparr>current_conversation_id := Some 2\<rparr>) = Some 2"
    and g3: "session_user_id guest_session = 2"
    by (simp_all add: guest_session_def)
  show ?thesis
    using add_user_message_no_owner_check
            [where ss = guest_session and cid = 1 and db = one_conversation and now = 5
               and conv_out = "\<lparr>seq_value = 2, utcnow1 = 5, utcnow2 = 5\<rparr>"
               and msg_out = "\<lparr>seq_value = 1, utcnow1 = 6, utcnow2 = 7\<rparr>"
               and prompt = "''hi''" and caller = 2, OF g1]
          add_user_message_no_owner_check
            [where ss = "guest_session\<lparr>current_conversation_id := Some 2\<rparr>" and cid = 2
               and db = one_conversation and now = 5
               and conv_out = "\<lparr>seq_value = 2, utcnow1 = 5, utcnow2 = 5\<rparr>"
               and msg_out = "\<lparr>seq_value = 1, utcnow1 = 6, utcnow2 = 7\<rparr>"
               and prompt = "''hi''" and caller = 2, OF g2]
    by (simp add: o g3)
qed

text \<open>
  Claim C2 as stated fails: the conversation 1 belongs to user 1, and the request of
  user 2 for it inserts the message and sets the title; the conversation is deleted by
  its id alone.
\<close>

theorem add_user_message_other_owner:
  "map_option user_id (conversations one_conversation 1) = Some 1
   \<and> session_user_id guest_session = 2
   \<and> fst (add_user_message 5 \<lparr>seq_value = 2, utcnow1 = 5, utcnow2 = 5\<rparr>
            \<lparr>seq_value = 1, utcnow1 = 6, utcnow2 = 7\<rparr> ''hi'' (guest_session, one_conversation))
       = Inr 1
   \<and> map content (chat_messages (snd (snd
        (add_user_message 5 \<lparr>seq_value = 2, utcnow1 = 5, utcnow2 = 5\<rparr>
            \<lparr>seq_value = 1, utcnow1 = 6, utcnow2 = 7\<rparr> ''hi'' (guest_session, one_conversation)))))
       = [''hi'']
   \<and> map_option title (conversations (snd (snd
        (add_user_message 5 \<lparr>seq_value = 2, utcnow1 = 5, utcnow2 = 5\<rparr>
            \<lparr>seq_value = 1, utcnow1 = 6, utcnow2 = 7\<rparr> ''hi'' (guest_session, one_conversation)))) 1)
       = Some ''hi''
   \<and> conversations (snd (delete_conversation 1 one_conversation)) 1 = None"
  by (simp add: add_user_message_def add_session_message_def add_message_def
      one_conversation_def create_conversation_def init_database_def
      guest_session_def no_conversation_def delete_conversation_def Let_def fits_def)

text \<open>
  The whole handler stores the error text of a failed model call as the message of the
  assistant.
\<close>

lemma on_chat_input_stores_error_text:
  assumes "current_conversation_id ss = Some cid" and "cid \<noteq> 0"
    and "conversations db cid = Some c"
    and "seq_value msg_out \<notin> set (map msg_id (chat_messages db))"
    and "seq_value reply_out \<notin> set (map msg_id (chat_messages db))"
    and "seq_value reply_out \<noteq> seq_value msg_out"
    and "chain_stream prompt (slice_last3 (history_pairs (messages ss
            @ [\<lparr>sm_role = ''user'', sm_content = prompt, sm_timestamp = t_user\<rparr>])))
         = chunks_then chunks (StreamRaise e)"
  shows "map content (chat_messages (snd (snd
           (on_chat_input chain_stream t_user conv_out msg_out t_reply reply_out prompt (ss, db)))))
         = map content (chat_messages db) @ [prompt, concat chunks @ ''Error: '' @ e]"
proof -
  have 1: "add_user_message t_user conv_out msg_out prompt (ss, db) =
     (fst (add_message msg_out cid ''user'' prompt db),
      ss\<lparr>messages := messages ss
            @ [\<lparr>sm_role = ''user'', sm_content = prompt, sm_timestamp = t_user\<rparr>]\<rparr>,
      snd (add_message msg_out cid ''user'' prompt db))"
    using assms(1,2) by (rule add_user_message_existing)
  show ?thesis
    unfolding on_chat_input_def 1
    using assms
    by (simp add: add_message_def add_session_message_def Let_def stream_response_def
        stream_loop_raise write_stream_def fits_def)
qed

subsection \<open>The document loader\<close>

lemma load_loop_invariant:
  "load_documents_from_urls_loop loader urls source_name (heap0, acc0) = (heap, all_docs) \<Longrightarrow>
   heap = heap0 @ concat (map (successfully_loaded loader source_name) urls)
   \<and> mset all_docs =
       mset acc0 + mset [length heap0..<length heap] + mset [length heap0..<length heap]"
proof (induction urls arbitrary: heap0 acc0)
  case Nil
  then show ?case by simp
next
  case (Cons url urls)
  show ?case
  proof (cases "loader url")
    case (Inl e)
    then show ?thesis using Cons.IH[of heap0 acc0] Cons.prems
      by (simp add: successfully_loaded_def)
  next
    case (Inr loaded)
    let ?new = "map (add_source_metadata source_name url) loaded"
    let ?docs = "[length heap0..<length heap0 + length loaded]"
    have run: "load_documents_from_urls_loop loader urls source_name
                 (heap0 @ ?new, (acc0 @ ?docs) @ ?docs) = (heap, all_docs)"
      using Cons.prems Inr by (simp add: Let_def)
    from Cons.IH[OF run]
    have h: "heap = (heap0 @ ?new) @ concat (map (successfully_loaded loader source_name) urls)"
      and m: "mset all_docs = mset ((acc0 @ ?docs) @ ?docs)
                + mset [length (heap0 @ ?new)..<length heap]
                + mset [length (heap0 @ ?new)..<length heap]"
      by blast+
    have le: "length heap0 + length loaded \<le> length heap" using h by simp
    then obtain k where k: "length heap = (length heap0 + length loaded) + k"
      using le_Suc_ex by blast
    have split: "[length heap0..<length heap] =
                 ?docs @ [length heap0 + length loaded..<length heap]"
      unfolding k by (metis le_add1 upt_add_eq_append)
    have "heap = heap0 @ concat (map (successfully_loaded loader source_name) (url # urls))"
      using h Inr by (simp add: successfully_loaded_def)
    moreover have "mset all_docs =
       mset acc0 + mset [length heap0..<length heap] + mset [length heap0..<length heap]"
      using m unfolding split by simp
    ultimately show ?thesis by blast
  qed
qed

lemma mset_concat_map:
  "mset (concat (map f xs)) = (\<Sum>x\<in>#mset xs. mset (f x))"
  by (induction xs) auto

text \<open>
  Claim C9. For every list of URLs, the heap holds the documents loaded without an
  exception, and each of them has its address exactly twice in the list that
  \<open>load_documents_from_urls\<close> returns, which is twice as long as the heap. So the
  chunks \<open>split_documents\<close> makes of the returned list are the chunks of every loaded
  document, each twice.
\<close>

theorem load_documents_twice:
  assumes "load_documents_from_urls loader urls source_name [] = (heap, all_docs)"
  shows "heap = concat (map (successfully_loaded loader source_name) urls)
         \<and> set all_docs = {..<length heap}
         \<and> (\<forall>r<length heap. count_list all_docs r = 2)
         \<and> length all_docs = 2 * length heap
         \<and> mset (split_documents split_text (map ((!) heap) all_docs))
             = mset (text_splitter_split_documents split_text heap)
               + mset (text_splitter_split_documents split_text heap)"
proof -
  from load_loop_invariant[OF assms[unfolded load_documents_from_urls_def]]
  have h: "heap = concat (map (successfully_loaded loader source_name) urls)"
    and m: "mset all_docs = mset [0..<length heap] + mset [0..<length heap]"
    by simp_all
  have s: "set all_docs = {..<length heap}"
  proof -
    have "set_mset (mset all_docs) = {..<length heap}" unfolding m by auto
    then show ?thesis by simp
  qed
  have c: "\<forall>r<length heap. count_list all_docs r = 2"
  proof (intro allI impI)
    fix r assume r: "r < length heap"
    have "count (mset all_docs) r = 2" unfolding m using r
      by (simp add: count_mset count_list_0_iff distinct_count_atmost_1)
    then show "count_list all_docs r = 2" by (simp add: count_mset)
  qed
  have l: "length all_docs = 2 * length heap"
  proof -
    have "size (mset all_docs) = 2 * length heap" unfolding m by simp
    then show ?thesis by simp
  qed
  have "mset (split_documents split_text (map ((!) heap) all_docs))
          = (\<Sum>r\<in>#mset all_docs. mset (chunks_of split_text (heap ! r)))"
    by (simp add: split_documents_def text_splitter_split_documents_def mset_concat_map
        o_def image_mset.compositionality)
  also have "\<dots> = (\<Sum>r\<in>#mset [0..<length heap]. mset (chunks_of split_text (heap ! r)))
                + (\<Sum>r\<in>#mset [0..<length heap]. mset (chunks_of split_text (heap ! r)))"
    unfolding m by simp
  also have "(\<Sum>r\<in>#mset [0..<length heap]. mset (chunks_of split_text (heap ! r)))
               = mset (text_splitter_split_documents split_text heap)"
  proof -
    have "mset (text_splitter_split_documents split_text (map ((!) heap) [0..<length heap]))
            = (\<Sum>r\<in>#mset [0..<length heap]. mset (chunks_of split_text (heap ! r)))"
      unfolding text_splitter_split_documents_def map_map mset_concat_map
      by (simp add: o_def)
    then show ?thesis by (simp add: map_nth)
  qed
  finally show ?thesis using h s c l by blast
qed

text \<open>
  Of two URLs of which the first loads one page, the returned list holds the page
  twice.
\<close>

theorem load_documents_twice_witness:
  "load_documents_from_urls one_page_loader
     [''https://python.langchain.com/docs/introduction/'', ''https://python.langchain.com/docs/concepts/'']
     ''langchain'' []
   = ([add_source_metadata ''langchain'' ''https://python.langchain.com/docs/introduction/''
         \<lparr>page_content = ''Introduction'', metadata = Map.empty\<rparr>], [0, 0])
   \<and> count_list [0, 0 :: nat] 0 = 2"
  using load_documents_twice
    [where loader = one_page_loader
       and urls = "[''https://python.langchain.com/docs/introduction/'', ''https://python.langchain.com/docs/concepts/'']"
       and source_name = "''langchain''"
       and heap = "[add_source_metadata ''langchain'' ''https://python.langchain.com/docs/introduction/''
         \<lparr>page_content = ''Introduction'', metadata = Map.empty\<rparr>]"
       and all_docs = "[0, 0]" and split_text = halves]
  by (simp add: load_documents_from_urls_def one_page_loader_def)

end
